theory Spec2Isabelle
  imports Complex_Main
begin

section \<open>Data model (database.py, models.py)\<close>

text \<open>
  The two SQLite tables of \<^verbatim>\<open>init_database\<close> are lists of rows in insertion order.
  A Python \<^verbatim>\<open>int\<close> is an unbounded \<open>int\<close>, and what the store accepts of it is written
  out below. \<^verbatim>\<open>created_at\<close> is the ISO string of the clock, which the model takes as an
  argument. The column \<^verbatim>\<open>id\<close> is \<open>user_id\<close> and \<open>sweet_id\<close> here, and \<^verbatim>\<open>is_admin\<close> keeps
  its storage type \<^verbatim>\<open>INTEGER\<close>.
\<close>

text \<open>
  A Python \<^verbatim>\<open>float\<close> as far as the program handles one: prices are stored, compared
  and handed back, never computed with, so a finite value is the real number it
  denotes, next to the two infinities and not-a-number.
\<close>

datatype py_float = Num real | PosInf | NegInf | NaN

record user_row =
  user_id :: int
  username :: string
  password_hash :: string
  is_admin :: int
  user_created_at :: string

record sweet_row =
  sweet_id :: int
  name :: string
  category :: string
  price :: py_float
  quantity :: int
  created_at :: string

text \<open>
  Both primary keys are \<^verbatim>\<open>AUTOINCREMENT\<close>: the store remembers the largest id it has
  handed out per table and never reuses one.
\<close>

record db =
  users :: "user_row list"
  sweets :: "sweet_row list"
  users_seq :: int
  sweets_seq :: int

text \<open>Request bodies of models.py.\<close>

record UserRegister =
  reg_username :: string
  reg_password :: string
  admin_key :: "string option"

record SweetCreate =
  new_name :: string
  new_category :: string
  new_price :: py_float
  new_quantity :: int

record SweetUpdate =
  upd_name :: "string option"
  upd_category :: "string option"
  upd_price :: "py_float option"
  upd_quantity :: "int option"

text \<open>
  What a handler can raise: an \<^verbatim>\<open>HTTPException\<close> with its status code and detail; the
  \<^verbatim>\<open>sqlite3.IntegrityError\<close> of a \<^verbatim>\<open>UNIQUE\<close> or \<^verbatim>\<open>NOT NULL\<close> constraint; the
  \<^verbatim>\<open>OverflowError\<close> of a Python \<^verbatim>\<open>int\<close> that does not fit the 64-bit \<^verbatim>\<open>INTEGER\<close> of
  SQLite; the \<^verbatim>\<open>TypeError\<close> of \<^verbatim>\<open>SweetResponse(**None)\<close>. The server answers an
  exception that is not an \<^verbatim>\<open>HTTPException\<close> with status 500.
\<close>

datatype exn = HTTPException nat string | IntegrityError | OverflowError | TypeError


section \<open>Data access (database.py)\<close>

text \<open>
  The values that \<^verbatim>\<open>sqlite3\<close> binds to a statement: a Python \<^verbatim>\<open>int\<close> must lie in the
  signed 64-bit range, or \<^verbatim>\<open>execute\<close> raises \<^verbatim>\<open>OverflowError\<close> and nothing is written;
  a not-a-number is bound as \<^verbatim>\<open>NULL\<close>.
\<close>

definition sqlite_integer :: "int \<Rightarrow> bool" where
  "sqlite_integer n \<longleftrightarrow> - (2 ^ 63) \<le> n \<and> n \<le> 2 ^ 63 - 1"

text \<open>The comparison \<^verbatim>\<open>a <= b\<close> of two \<^verbatim>\<open>REAL\<close> values; it is false with \<^verbatim>\<open>NULL\<close>.\<close>

fun float_le :: "py_float \<Rightarrow> py_float \<Rightarrow> bool" where
  "float_le NaN b = False"
| "float_le a NaN = False"
| "float_le NegInf b = True"
| "float_le a PosInf = True"
| "float_le (Num x) (Num y) = (x \<le> y)"
| "float_le (Num x) NegInf = False"
| "float_le PosInf b = False"

definition init_database :: db where
  "init_database = \<lparr>users = [], sweets = [], users_seq = 0, sweets_seq = 0\<rparr>"

definition get_user_by_username :: "db \<Rightarrow> string \<Rightarrow> user_row option" where
  "get_user_by_username d u = find (\<lambda>r. username r = u) (users d)"

definition create_user :: "db \<Rightarrow> string \<Rightarrow> string \<Rightarrow> string \<Rightarrow> bool \<Rightarrow> exn + (int \<times> db)" where
  "create_user d now u ph adm =
     (if find (\<lambda>r. username r = u) (users d) \<noteq> None then Inl IntegrityError
      else
        let uid = users_seq d + 1;
            row = \<lparr>user_id = uid, username = u, password_hash = ph,
                   is_admin = (if adm then 1 else 0), user_created_at = now\<rparr>
        in Inr (uid, d\<lparr>users := users d @ [row], users_seq := uid\<rparr>))"

definition get_sweet_by_id :: "db \<Rightarrow> int \<Rightarrow> exn + sweet_row option" where
  "get_sweet_by_id d i =
     (if \<not> sqlite_integer i then Inl OverflowError
      else Inr (find (\<lambda>r. sweet_id r = i) (sweets d)))"

definition get_all_sweets :: "db \<Rightarrow> sweet_row list" where
  "get_all_sweets d = sort_key sweet_id (sweets d)"

definition create_sweet ::
  "db \<Rightarrow> string \<Rightarrow> string \<Rightarrow> string \<Rightarrow> py_float \<Rightarrow> int \<Rightarrow> exn + (int \<times> db)" where
  "create_sweet d now n c p q =
     (if \<not> sqlite_integer q then Inl OverflowError
      else if p = NaN then Inl IntegrityError
      else
        let sid = sweets_seq d + 1;
            row = \<lparr>sweet_id = sid, name = n, category = c, price = p, quantity = q,
                   created_at = now\<rparr>
        in Inr (sid, d\<lparr>sweets := sweets d @ [row], sweets_seq := sid\<rparr>))"

text \<open>The \<^verbatim>\<open>SET\<close> clause of \<^verbatim>\<open>update_sweet\<close>: each field that is not \<^verbatim>\<open>None\<close>.\<close>

definition set_fields ::
  "string option \<Rightarrow> string option \<Rightarrow> py_float option \<Rightarrow> int option \<Rightarrow> sweet_row \<Rightarrow> sweet_row" where
  "set_fields n c p q r =
     r\<lparr>name := (case n of None \<Rightarrow> name r | Some v \<Rightarrow> v),
       category := (case c of None \<Rightarrow> category r | Some v \<Rightarrow> v),
       price := (case p of None \<Rightarrow> price r | Some v \<Rightarrow> v),
       quantity := (case q of None \<Rightarrow> quantity r | Some v \<Rightarrow> v)\<rparr>"

text \<open>
  The statement binds the new quantity and the id; a price that is not a number would
  be written as \<^verbatim>\<open>NULL\<close>, which the column refuses for a row that the statement reaches.
\<close>

definition update_sweet ::
  "db \<Rightarrow> int \<Rightarrow> string option \<Rightarrow> string option \<Rightarrow> py_float option \<Rightarrow> int option
     \<Rightarrow> exn + (bool \<times> db)" where
  "update_sweet d i n c p q =
     (if n = None \<and> c = None \<and> p = None \<and> q = None then Inr (False, d)
      else if \<not> sqlite_integer i \<or> (case q of None \<Rightarrow> False | Some v \<Rightarrow> \<not> sqlite_integer v)
      then Inl OverflowError
      else if p = Some NaN \<and> find (\<lambda>r. sweet_id r = i) (sweets d) \<noteq> None
      then Inl IntegrityError
      else Inr (find (\<lambda>r. sweet_id r = i) (sweets d) \<noteq> None,
                d\<lparr>sweets :=
                    map (\<lambda>r. if sweet_id r = i then set_fields n c p q r else r) (sweets d)\<rparr>))"

definition delete_sweet :: "db \<Rightarrow> int \<Rightarrow> exn + (bool \<times> db)" where
  "delete_sweet d i =
     (if \<not> sqlite_integer i then Inl OverflowError
      else Inr (find (\<lambda>r. sweet_id r = i) (sweets d) \<noteq> None,
                d\<lparr>sweets := filter (\<lambda>r. sweet_id r \<noteq> i) (sweets d)\<rparr>))"

text \<open>
  \<^verbatim>\<open>search_sweets\<close> puts a condition into the query for a name and a category that
  are not empty and for a price bound that is not \<^verbatim>\<open>None\<close>. The \<^verbatim>\<open>LIKE\<close> operator
  belongs to SQLite and is an argument: \<open>like pattern text\<close>.
\<close>

definition search_sweets ::
  "(string \<Rightarrow> string \<Rightarrow> bool) \<Rightarrow> db \<Rightarrow> string option \<Rightarrow> string option \<Rightarrow> py_float option
     \<Rightarrow> py_float option \<Rightarrow> sweet_row list" where
  "search_sweets like d n c min_price max_price =
     filter
       (\<lambda>r. (case n of None \<Rightarrow> True
                | Some v \<Rightarrow> v = [] \<or> like (''%'' @ v @ ''%'') (name r)) \<and>
             (case c of None \<Rightarrow> True | Some v \<Rightarrow> v = [] \<or> category r = v) \<and>
             (case min_price of None \<Rightarrow> True | Some v \<Rightarrow> float_le v (price r)) \<and>
             (case max_price of None \<Rightarrow> True | Some v \<Rightarrow> float_le (price r) v))
       (sort_key sweet_id (sweets d))"

text \<open>
  \<^verbatim>\<open>UPDATE sweets SET quantity = ? WHERE id = ?\<close>, the write of both ledger operations,
  once its two values are bound.
\<close>

definition set_quantity :: "db \<Rightarrow> int \<Rightarrow> int \<Rightarrow> db" where
  "set_quantity d i q =
     d\<lparr>sweets := map (\<lambda>r. if sweet_id r = i then r\<lparr>quantity := q\<rparr> else r) (sweets d)\<rparr>"

definition purchase_sweet :: "db \<Rightarrow> int \<Rightarrow> int \<Rightarrow> exn + (bool \<times> db)" where
  "purchase_sweet d i q =
     (if \<not> sqlite_integer i then Inl OverflowError
      else
        case find (\<lambda>r. sweet_id r = i) (sweets d) of
          None \<Rightarrow> Inr (False, d)
        | Some row \<Rightarrow>
            let current_quantity = quantity row in
            if current_quantity < q then Inr (False, d)
            else
              let new_quantity = current_quantity - q in
              if \<not> sqlite_integer new_quantity then Inl OverflowError
              else Inr (True, set_quantity d i new_quantity))"

definition restock_sweet :: "db \<Rightarrow> int \<Rightarrow> int \<Rightarrow> exn + (bool \<times> db)" where
  "restock_sweet d i q =
     (if \<not> sqlite_integer i then Inl OverflowError
      else
        case find (\<lambda>r. sweet_id r = i) (sweets d) of
          None \<Rightarrow> Inr (False, d)
        | Some row \<Rightarrow>
            let current_quantity = quantity row;
                new_quantity = current_quantity + q
            in if \<not> sqlite_integer new_quantity then Inl OverflowError
               else Inr (True, set_quantity d i new_quantity))"

section \<open>Access control (main.py)\<close>

text \<open>
  \<^verbatim>\<open>security = HTTPBearer()\<close> is the bearer scheme of FastAPI, which is library code. It is
  modelled on the releases that answer a request without credentials with 403 (0.110
  is one): the \<^verbatim>\<open>Authorization\<close> header is split at its first space into scheme and
  credentials; a header that is absent or lacks either part is "Not authenticated", a
  scheme that is not \<^verbatim>\<open>bearer\<close> in any letter case is "Invalid authentication
  credentials", and the credentials are the token otherwise.
\<close>

definition lower_ascii :: "char \<Rightarrow> char" where
  "lower_ascii c =
     (case map_of (zip ''ABCDEFGHIJKLMNOPQRSTUVWXYZ'' ''abcdefghijklmnopqrstuvwxyz'') c of
        None \<Rightarrow> c
      | Some l \<Rightarrow> l)"

definition HTTPBearer :: "string option \<Rightarrow> exn + string" where
  "HTTPBearer authorization =
     (case authorization of
        None \<Rightarrow> Inl (HTTPException 403 ''Not authenticated'')
      | Some h \<Rightarrow>
          let scheme = takeWhile (\<lambda>c. c \<noteq> CHR '' '') h;
              credentials = drop (Suc (length scheme)) h
          in if h = [] \<or> scheme = [] \<or> credentials = []
             then Inl (HTTPException 403 ''Not authenticated'')
             else if map lower_ascii scheme \<noteq> ''bearer''
             then Inl (HTTPException 403 ''Invalid authentication credentials'')
             else Inr credentials)"

text \<open>
  The payload a verified token decodes to. \<^verbatim>\<open>payload.get("sub")\<close> is \<^verbatim>\<open>None\<close> when
  the key is absent, so \<open>sub\<close> is optional.
\<close>

record token_payload =
  sub :: "string option"
  admin_claim :: bool
  exp_claim :: int

record current_user =
  cu_id :: int
  cu_username :: string
  cu_is_admin :: bool

text \<open>
  \<^verbatim>\<open>get_current_user\<close> receives the token that the bearer scheme of the framework took
  from the \<^verbatim>\<open>Authorization\<close> header. \<^verbatim>\<open>verify_token\<close> comes from auth.py and is an
  argument here. A payload without \<^verbatim>\<open>sub\<close> looks up \<^verbatim>\<open>username = NULL\<close>, which
  selects no row.
\<close>

definition get_current_user ::
  "('tok \<Rightarrow> token_payload option) \<Rightarrow> db \<Rightarrow> 'tok \<Rightarrow> exn + current_user" where
  "get_current_user verify_token d token =
     (case verify_token token of
        None \<Rightarrow> Inl (HTTPException 401 ''Invalid or expired token'')
      | Some payload \<Rightarrow>
          (case (case sub payload of None \<Rightarrow> None | Some u \<Rightarrow> get_user_by_username d u) of
             None \<Rightarrow> Inl (HTTPException 401 ''User not found'')
           | Some user \<Rightarrow>
               Inr \<lparr>cu_id = user_id user, cu_username = username user,
                    cu_is_admin = (is_admin user \<noteq> 0)\<rparr>))"

definition get_admin_user :: "current_user \<Rightarrow> exn + current_user" where
  "get_admin_user cu =
     (if \<not> cu_is_admin cu then Inl (HTTPException 403 ''Admin access required'')
      else Inr cu)"

text \<open>
  \<^verbatim>\<open>Depends(get_current_user)\<close> and \<^verbatim>\<open>Depends(get_admin_user)\<close>: the framework resolves
  the inner dependency first, so the bearer scheme runs before \<^verbatim>\<open>get_current_user\<close> and
  that before \<^verbatim>\<open>get_admin_user\<close>.
\<close>

definition depends_current_user ::
  "(string \<Rightarrow> token_payload option) \<Rightarrow> db \<Rightarrow> string option \<Rightarrow> exn + current_user" where
  "depends_current_user verify_token d authorization =
     (case HTTPBearer authorization of
        Inl e \<Rightarrow> Inl e
      | Inr credentials \<Rightarrow> get_current_user verify_token d credentials)"

definition depends_admin_user ::
  "(string \<Rightarrow> token_payload option) \<Rightarrow> db \<Rightarrow> string option \<Rightarrow> exn + current_user" where
  "depends_admin_user verify_token d authorization =
     (case depends_current_user verify_token d authorization of
        Inl e \<Rightarrow> Inl e
      | Inr cu \<Rightarrow> get_admin_user cu)"

section \<open>Endpoints (main.py)\<close>

text \<open>
  A handler maps the store and the request to the response or the raised exception,
  and the store it leaves behind. A data access function that raises has written
  nothing.
\<close>

definition ADMIN_KEY :: string where
  "ADMIN_KEY = ''aswd''"

definition register ::
  "(string \<Rightarrow> string) \<Rightarrow> (string \<Rightarrow> bool \<Rightarrow> 'tok) \<Rightarrow> string \<Rightarrow> db \<Rightarrow> UserRegister
     \<Rightarrow> (exn + 'tok) \<times> db" where
  "register hash_password create_access_token now d user_data =
     (if get_user_by_username d (reg_username user_data) \<noteq> None
      then (Inl (HTTPException 400 ''Username already exists''), d)
      else
        let user_count = int (length (users d));
            adm = (user_count = 0 \<or> admin_key user_data = Some ADMIN_KEY);
            ph = hash_password (reg_password user_data)
        in case create_user d now (reg_username user_data) ph adm of
             Inl e \<Rightarrow> (Inl e, d)
           | Inr (uid, d') \<Rightarrow> (Inr (create_access_token (reg_username user_data) adm), d'))"

text \<open>
  \<^verbatim>\<open>SweetResponse(**row)\<close> of a row just read: the row itself. A row that has gone
  (\<^verbatim>\<open>**None\<close>) is a \<^verbatim>\<open>TypeError\<close>.
\<close>

definition sweet_response :: "exn + sweet_row option \<Rightarrow> exn + sweet_row" where
  "sweet_response r =
     (case r of Inl e \<Rightarrow> Inl e | Inr None \<Rightarrow> Inl TypeError | Inr (Some row) \<Rightarrow> Inr row)"

definition add_sweet ::
  "(string \<Rightarrow> token_payload option) \<Rightarrow> string \<Rightarrow> db \<Rightarrow> string option \<Rightarrow> SweetCreate
     \<Rightarrow> (exn + sweet_row) \<times> db" where
  "add_sweet verify_token now d authorization sweet =
     (case depends_current_user verify_token d authorization of
        Inl e \<Rightarrow> (Inl e, d)
      | Inr cu \<Rightarrow>
          (case create_sweet d now (new_name sweet) (new_category sweet) (new_price sweet)
                  (new_quantity sweet) of
             Inl e \<Rightarrow> (Inl e, d)
           | Inr (sid, d') \<Rightarrow> (sweet_response (get_sweet_by_id d' sid), d')))"

definition get_sweets ::
  "(string \<Rightarrow> token_payload option) \<Rightarrow> db \<Rightarrow> string option \<Rightarrow> (exn + sweet_row list) \<times> db" where
  "get_sweets verify_token d authorization =
     (case depends_current_user verify_token d authorization of
        Inl e \<Rightarrow> (Inl e, d)
      | Inr cu \<Rightarrow> (Inr (get_all_sweets d), d))"

definition search_sweets_endpoint ::
  "(string \<Rightarrow> token_payload option) \<Rightarrow> (string \<Rightarrow> string \<Rightarrow> bool) \<Rightarrow> db \<Rightarrow> string option
     \<Rightarrow> string option \<Rightarrow> string option \<Rightarrow> py_float option \<Rightarrow> py_float option
     \<Rightarrow> (exn + sweet_row list) \<times> db" where
  "search_sweets_endpoint verify_token like d authorization n c min_price max_price =
     (case depends_current_user verify_token d authorization of
        Inl e \<Rightarrow> (Inl e, d)
      | Inr cu \<Rightarrow> (Inr (search_sweets like d n c min_price max_price), d))"

definition update_sweet_endpoint ::
  "(string \<Rightarrow> token_payload option) \<Rightarrow> db \<Rightarrow> string option \<Rightarrow> int \<Rightarrow> SweetUpdate
     \<Rightarrow> (exn + sweet_row) \<times> db" where
  "update_sweet_endpoint verify_token d authorization i sweet_update =
     (case depends_current_user verify_token d authorization of
        Inl e \<Rightarrow> (Inl e, d)
      | Inr cu \<Rightarrow>
          (case get_sweet_by_id d i of
             Inl e \<Rightarrow> (Inl e, d)
           | Inr None \<Rightarrow> (Inl (HTTPException 404 ''Sweet not found''), d)
           | Inr (Some sweet) \<Rightarrow>
               (case update_sweet d i (upd_name sweet_update) (upd_category sweet_update)
                       (upd_price sweet_update) (upd_quantity sweet_update) of
                  Inl e \<Rightarrow> (Inl e, d)
                | Inr (ok, d') \<Rightarrow> (sweet_response (get_sweet_by_id d' i), d'))))"

definition delete_sweet_endpoint ::
  "(string \<Rightarrow> token_payload option) \<Rightarrow> db \<Rightarrow> string option \<Rightarrow> int \<Rightarrow> (exn + unit) \<times> db" where
  "delete_sweet_endpoint verify_token d authorization i =
     (case depends_admin_user verify_token d authorization of
        Inl e \<Rightarrow> (Inl e, d)
      | Inr cu \<Rightarrow>
          (case get_sweet_by_id d i of
             Inl e \<Rightarrow> (Inl e, d)
           | Inr None \<Rightarrow> (Inl (HTTPException 404 ''Sweet not found''), d)
           | Inr (Some sweet) \<Rightarrow>
               (case delete_sweet d i of
                  Inl e \<Rightarrow> (Inl e, d)
                | Inr (ok, d') \<Rightarrow> (Inr (), d'))))"

definition purchase_sweet_endpoint ::
  "(string \<Rightarrow> token_payload option) \<Rightarrow> db \<Rightarrow> string option \<Rightarrow> int \<Rightarrow> int
     \<Rightarrow> (exn + sweet_row) \<times> db" where
  "purchase_sweet_endpoint verify_token d authorization i q =
     (case depends_current_user verify_token d authorization of
        Inl e \<Rightarrow> (Inl e, d)
      | Inr cu \<Rightarrow>
          (case get_sweet_by_id d i of
             Inl e \<Rightarrow> (Inl e, d)
           | Inr None \<Rightarrow> (Inl (HTTPException 404 ''Sweet not found''), d)
           | Inr (Some sweet) \<Rightarrow>
               (case purchase_sweet d i q of
                  Inl e \<Rightarrow> (Inl e, d)
                | Inr (ok, d') \<Rightarrow>
                    if \<not> ok then (Inl (HTTPException 400 ''Insufficient quantity in stock''), d')
                    else (sweet_response (get_sweet_by_id d' i), d'))))"

definition restock_sweet_endpoint ::
  "(string \<Rightarrow> token_payload option) \<Rightarrow> db \<Rightarrow> string option \<Rightarrow> int \<Rightarrow> int
     \<Rightarrow> (exn + sweet_row) \<times> db" where
  "restock_sweet_endpoint verify_token d authorization i q =
     (case depends_admin_user verify_token d authorization of
        Inl e \<Rightarrow> (Inl e, d)
      | Inr cu \<Rightarrow>
          (case get_sweet_by_id d i of
             Inl e \<Rightarrow> (Inl e, d)
           | Inr None \<Rightarrow> (Inl (HTTPException 404 ''Sweet not found''), d)
           | Inr (Some sweet) \<Rightarrow>
               (case restock_sweet d i q of
                  Inl e \<Rightarrow> (Inl e, d)
                | Inr (ok, d') \<Rightarrow> (sweet_response (get_sweet_by_id d' i), d'))))"

section \<open>Token service (auth.py)\<close>

text \<open>
  Modelled from the spec: auth.py, which holds \<^verbatim>\<open>create_access_token\<close> and
  \<^verbatim>\<open>verify_token\<close>, is not among the sources. A token is a payload with its signature,
  or a string that does not decode. The signing function, the secret and the validity
  window are configuration, and the clock is an argument (seconds).
\<close>

datatype 'sig token = Signed token_payload 'sig | Malformed string

text \<open>
  Modelled from the spec: \<^verbatim>\<open>issue(subject, is_admin)\<close> embeds the subject, the admin flag
  and an expiration instant of issue time plus the validity window, and signs them.
\<close>

definition create_access_token ::
  "(string \<Rightarrow> token_payload \<Rightarrow> 'sig) \<Rightarrow> string \<Rightarrow> int \<Rightarrow> int \<Rightarrow> string \<Rightarrow> bool \<Rightarrow> 'sig token" where
  "create_access_token sign secret window now subject adm =
     (let payload = \<lparr>sub = Some subject, admin_claim = adm, exp_claim = now + window\<rparr>
      in Signed payload (sign secret payload))"

text \<open>
  Modelled from the spec: \<^verbatim>\<open>verify(token)\<close> returns the decoded payload, and returns
  invalid (\<^verbatim>\<open>None\<close>) when the payload is malformed, the signature is not the one the
  secret gives, or the current time is at or past the expiration.
\<close>

definition verify_token ::
  "(string \<Rightarrow> token_payload \<Rightarrow> 'sig) \<Rightarrow> string \<Rightarrow> int \<Rightarrow> 'sig token \<Rightarrow> token_payload option" where
  "verify_token sign secret now tok =
     (case tok of
        Malformed s \<Rightarrow> None
      | Signed payload sg \<Rightarrow>
          if sg \<noteq> sign secret payload then None
          else if exp_claim payload \<le> now then None
          else Some payload)"

section \<open>Scenario store\<close>

text \<open>
  The concrete runs below use one store: alice registers first, bob registers second
  without a key, and alice adds the Ladoo item (lemma \<open>shop_is_reachable\<close>). Tokens are
  issued at time 0 for 86400 seconds under the secret \<open>''k''\<close> and verified at time 60;
  the signature is the pair of the secret and the payload, and the stored hash is the
  password behind a mark. On the wire a token is one of five strings, and every other
  string does not decode.
\<close>

abbreviation hash0 :: "string \<Rightarrow> string" where
  "hash0 \<equiv> (\<lambda>p. CHR ''#'' # p)"

abbreviation issue0 :: "string \<Rightarrow> bool \<Rightarrow> (string \<times> token_payload) token" where
  "issue0 \<equiv> create_access_token Pair ''k'' 86400 0"

abbreviation verify0 :: "(string \<times> token_payload) token \<Rightarrow> token_payload option" where
  "verify0 \<equiv> verify_token Pair ''k'' 60"

abbreviation wire0 :: "string \<Rightarrow> (string \<times> token_payload) token" where
  "wire0 \<equiv>
     (\<lambda>s. if s = ''alice.k'' then issue0 ''alice'' True
          else if s = ''bob.k'' then issue0 ''bob'' False
          else if s = ''bob.admin.k'' then issue0 ''bob'' True
          else if s = ''carol.k'' then issue0 ''carol'' True
          else if s = ''alice.other''
          then create_access_token Pair ''other'' 86400 0 ''alice'' True
          else Malformed s)"

abbreviation gate0 :: "string \<Rightarrow> token_payload option" where
  "gate0 \<equiv> (\<lambda>s. verify0 (wire0 s))"

abbreviation ladoo :: sweet_row where
  "ladoo \<equiv> \<lparr>sweet_id = 1, name = ''Ladoo'', category = ''Indian'', price = Num (5 / 2),
             quantity = 10, created_at = ''t2''\<rparr>"

abbreviation shop :: db where
  "shop \<equiv>
     \<lparr>users =
        [\<lparr>user_id = 1, username = ''alice'', password_hash = ''#pw1'', is_admin = 1,
           user_created_at = ''t0''\<rparr>,
         \<lparr>user_id = 2, username = ''bob'', password_hash = ''#pw2'', is_admin = 0,
           user_created_at = ''t1''\<rparr>],
      sweets = [ladoo], users_seq = 2, sweets_seq = 1\<rparr>"

section \<open>Evaluation and lookup lemmas\<close>

lemma bearer_header:
  "HTTPBearer (Some (''Bearer '' @ t)) =
     (if t = [] then Inl (HTTPException 403 ''Not authenticated'') else Inr t)"
  by (simp add: HTTPBearer_def lower_ascii_def Let_def)

lemmas db_defs = init_database_def get_user_by_username_def create_user_def
  get_sweet_by_id_def create_sweet_def update_sweet_def delete_sweet_def set_quantity_def
  purchase_sweet_def restock_sweet_def set_fields_def sqlite_integer_def

lemmas api_defs = get_current_user_def get_admin_user_def depends_current_user_def
  depends_admin_user_def ADMIN_KEY_def register_def sweet_response_def add_sweet_def
  update_sweet_endpoint_def delete_sweet_endpoint_def purchase_sweet_endpoint_def
  restock_sweet_endpoint_def create_access_token_def verify_token_def Let_def
  HTTPBearer_def lower_ascii_def get_sweets_def search_sweets_endpoint_def

lemma shop_is_reachable:
  "snd (add_sweet gate0 ''t2''
          (snd (register hash0 issue0 ''t1''
                  (snd (register hash0 issue0 ''t0'' init_database
                          \<lparr>reg_username = ''alice'', reg_password = ''pw1'', admin_key = None\<rparr>))
                  \<lparr>reg_username = ''bob'', reg_password = ''pw2'', admin_key = None\<rparr>))
          (Some ''Bearer alice.k'')
          \<lparr>new_name = ''Ladoo'', new_category = ''Indian'', new_price = Num (5 / 2),
            new_quantity = 10\<rparr>) = shop"
  by (simp add: db_defs api_defs)







lemma purchase_sweet_success:
  "purchase_sweet d i q = Inr (True, d') \<Longrightarrow> \<exists>n. d' = set_quantity d i n"
  by (auto simp: purchase_sweet_def Let_def split: option.splits if_splits)

lemma restock_sweet_success:
  "restock_sweet d i q = Inr (True, d') \<Longrightarrow> \<exists>n. d' = set_quantity d i n"
  by (auto simp: restock_sweet_def Let_def split: option.splits if_splits)


lemma create_user_fresh:
  "get_user_by_username d u = None \<Longrightarrow>
   create_user d now u ph adm =
     Inr (users_seq d + 1,
          d\<lparr>users := users d @ [\<lparr>user_id = users_seq d + 1, username = u, password_hash = ph,
                                  is_admin = (if adm then 1 else 0), user_created_at = now\<rparr>],
            users_seq := users_seq d + 1\<rparr>)"
  by (simp add: create_user_def get_user_by_username_def Let_def)

lemma get_user_after_insert:
  "find (\<lambda>r. username r = u) xs = None \<Longrightarrow> username row = u \<Longrightarrow>
   find (\<lambda>r. username r = u) (xs @ [row]) = Some row"
  by (induction xs) (auto split: if_splits)

section \<open>Inventory ledger\<close>

text \<open>
  C1. Claim: no sequence of the public operations (add-item, field update, purchase,
  restock, delete) produces an item whose stored quantity is below 0.
  The handlers of the API do not keep it: on the scenario store, bob adds an item with
  quantity -5 and it is stored as sent, bob sets the quantity of the Ladoo item to -1
  through the field update, and alice restocks it by -100, which leaves -90. The
  menu of the command line in the same file refuses a negative initial quantity and a
  non-positive purchase or restock quantity before it calls the same data access
  functions.
\<close>

theorem api_stores_negative_quantity:
  "add_sweet gate0 ''t3'' shop (Some ''Bearer bob.k'')
     \<lparr>new_name = ''Barfi'', new_category = ''Indian'', new_price = Num 3,
       new_quantity = - 5\<rparr> =
     (Inr \<lparr>sweet_id = 2, name = ''Barfi'', category = ''Indian'', price = Num 3,
            quantity = - 5, created_at = ''t3''\<rparr>,
      shop\<lparr>sweets :=
             [ladoo,
              \<lparr>sweet_id = 2, name = ''Barfi'', category = ''Indian'', price = Num 3,
                quantity = - 5, created_at = ''t3''\<rparr>],
           sweets_seq := 2\<rparr>) \<and>
   update_sweet_endpoint gate0 shop (Some ''Bearer bob.k'') 1
     \<lparr>upd_name = None, upd_category = None, upd_price = None, upd_quantity = Some (- 1)\<rparr> =
     (Inr (ladoo\<lparr>quantity := - 1\<rparr>), shop\<lparr>sweets := [ladoo\<lparr>quantity := - 1\<rparr>]\<rparr>) \<and>
   restock_sweet_endpoint gate0 shop (Some ''Bearer alice.k'') 1 (- 100) =
     (Inr (ladoo\<lparr>quantity := - 90\<rparr>), shop\<lparr>sweets := [ladoo\<lparr>quantity := - 90\<rparr>]\<rparr>)"
  by (simp add: db_defs api_defs)



text \<open>
  C3. Claim: a purchase request with a quantity \<open>q \<le> 0\<close> is rejected as a validation
  error before the ledger rule runs, and the stock is unchanged.
  The endpoint passes the body's quantity to \<open>purchase_sweet\<close> as it comes: with 0 it
  answers with the item, and with -3 it answers with the item and the stock has grown
  from 10 to 13. The menu of the command line refuses \<open>quantity <= 0\<close> before the call.
\<close>

theorem purchase_endpoint_accepts_non_positive:
  "purchase_sweet_endpoint gate0 shop (Some ''Bearer bob.k'') 1 0 = (Inr ladoo, shop) \<and>
   purchase_sweet_endpoint gate0 shop (Some ''Bearer bob.k'') 1 (- 3) =
     (Inr (ladoo\<lparr>quantity := 13\<rparr>), shop\<lparr>sweets := [ladoo\<lparr>quantity := 13\<rparr>]\<rparr>) \<and>
   purchase_sweet shop 1 (- 3) = Inr (True, shop\<lparr>sweets := [ladoo\<lparr>quantity := 13\<rparr>]\<rparr>)"
  by (simp add: db_defs api_defs)







text \<open>
  C10. A purchase or restock that succeeds leaves the accounts and both id counters as
  they were, keeps the number and order of the items, changes no id, name, category,
  price or creation time of any item, and leaves every item of another id as it was.
\<close>

theorem ledger_changes_only_quantity:
  assumes "purchase_sweet d i q = Inr (True, d') \<or> restock_sweet d i q = Inr (True, d')"
  shows "users d' = users d \<and> users_seq d' = users_seq d \<and> sweets_seq d' = sweets_seq d \<and>
         length (sweets d') = length (sweets d) \<and>
         (\<forall>k < length (sweets d).
            sweet_id (sweets d' ! k) = sweet_id (sweets d ! k) \<and>
            name (sweets d' ! k) = name (sweets d ! k) \<and>
            category (sweets d' ! k) = category (sweets d ! k) \<and>
            price (sweets d' ! k) = price (sweets d ! k) \<and>
            created_at (sweets d' ! k) = created_at (sweets d ! k) \<and>
            (sweet_id (sweets d ! k) \<noteq> i \<longrightarrow> sweets d' ! k = sweets d ! k))"
proof -
  from assms obtain n where "d' = set_quantity d i n"
    using purchase_sweet_success restock_sweet_success by blast
  then show ?thesis
    by (simp add: set_quantity_def)
qed

text \<open>
  With a second item in the store, buying 7 Ladoo leaves the Barfi row and both
  accounts untouched, and the Ladoo row keeps its name.
\<close>

theorem ledger_changes_only_quantity_witness:
  "purchase_sweet
     (shop\<lparr>sweets :=
             [ladoo,
              \<lparr>sweet_id = 2, name = ''Barfi'', category = ''Indian'', price = Num 3,
                quantity = 4, created_at = ''t3''\<rparr>],
           sweets_seq := 2\<rparr>) 1 7 =
     Inr (True,
          shop\<lparr>sweets :=
                 [ladoo\<lparr>quantity := 3\<rparr>,
                  \<lparr>sweet_id = 2, name = ''Barfi'', category = ''Indian'', price = Num 3,
                    quantity = 4, created_at = ''t3''\<rparr>],
               sweets_seq := 2\<rparr>) \<and>
   users
     (shop\<lparr>sweets :=
             [ladoo\<lparr>quantity := 3\<rparr>,
              \<lparr>sweet_id = 2, name = ''Barfi'', category = ''Indian'', price = Num 3,
                quantity = 4, created_at = ''t3''\<rparr>],
           sweets_seq := 2\<rparr>) = users shop \<and>
   create_sweet shop ''t3'' ''Barfi'' ''Indian'' (Num 3) 4 =
     Inr (2, shop\<lparr>sweets :=
                    [ladoo,
                     \<lparr>sweet_id = 2, name = ''Barfi'', category = ''Indian'', price = Num 3,
                       quantity = 4, created_at = ''t3''\<rparr>],
                  sweets_seq := 2\<rparr>)"
proof -
  let ?barfi = "\<lparr>sweet_id = 2, name = ''Barfi'', category = ''Indian'', price = Num 3,
                 quantity = 4, created_at = ''t3''\<rparr>"
  let ?d = "shop\<lparr>sweets := [ladoo, ?barfi], sweets_seq := 2\<rparr>"
  let ?d' = "shop\<lparr>sweets := [ladoo\<lparr>quantity := 3\<rparr>, ?barfi], sweets_seq := 2\<rparr>"
  have run: "purchase_sweet ?d 1 7 = Inr (True, ?d')"
    by (simp add: db_defs)
  then have "purchase_sweet ?d 1 7 = Inr (True, ?d') \<or> restock_sweet ?d 1 7 = Inr (True, ?d')"
    by (rule disjI1)
  from ledger_changes_only_quantity [OF this] run show ?thesis
    by (simp add: db_defs)
qed

section \<open>Registration\<close>

text \<open>
  C4. A registration under a username that is not taken creates one account, and its
  admin flag is set exactly when no account was registered before or the submitted
  \<open>admin_key\<close> equals \<open>ADMIN_KEY\<close> as a string. The token that is returned is issued
  for the same flag. So the first account is an administrator whatever key it sends,
  and a later account without the key is not.
\<close>

theorem register_admin_flag:
  assumes "get_user_by_username d (reg_username u) = None"
  shows "\<exists>d' row.
           register h c now d u = (Inr (c (reg_username u) (is_admin row \<noteq> 0)), d') \<and>
           users d' = users d @ [row] \<and>
           get_user_by_username d' (reg_username u) = Some row \<and>
           (is_admin row \<noteq> 0 \<longleftrightarrow> length (users d) = 0 \<or> admin_key u = Some ADMIN_KEY)"
proof -
  let ?adm = "length (users d) = 0 \<or> admin_key u = Some ADMIN_KEY"
  let ?row = "\<lparr>user_id = users_seq d + 1, username = reg_username u,
               password_hash = h (reg_password u), is_admin = (if ?adm then 1 else 0),
               user_created_at = now\<rparr>"
  let ?d' = "d\<lparr>users := users d @ [?row], users_seq := users_seq d + 1\<rparr>"
  have flag: "is_admin ?row \<noteq> 0 \<longleftrightarrow> ?adm"
    by simp
  have run: "register h c now d u = (Inr (c (reg_username u) ?adm), ?d')"
    using assms by (simp add: register_def create_user_fresh Let_def)
  have found: "get_user_by_username ?d' (reg_username u) = Some ?row"
    using assms by (simp add: get_user_by_username_def get_user_after_insert)
  have "register h c now d u = (Inr (c (reg_username u) (is_admin ?row \<noteq> 0)), ?d')"
    using run flag by simp
  moreover have "users ?d' = users d @ [?row]"
    by simp
  ultimately show ?thesis
    using found flag by blast
qed

text \<open>
  On the empty store alice sends a wrong key and is an administrator. On the scenario
  store carol is one with the key \<open>''aswd''\<close> and is not with \<open>''ASWD''\<close> or with no key.
\<close>

theorem register_admin_flag_witness:
  "get_user_by_username init_database ''alice'' = None \<and>
   get_user_by_username shop ''carol'' = None \<and>
   fst (register hash0 issue0 ''t0'' init_database
          \<lparr>reg_username = ''alice'', reg_password = ''pw1'', admin_key = Some ''nope''\<rparr>) =
     Inr (issue0 ''alice'' True) \<and>
   fst (register hash0 issue0 ''t3'' shop
          \<lparr>reg_username = ''carol'', reg_password = ''pw3'', admin_key = Some ''aswd''\<rparr>) =
     Inr (issue0 ''carol'' True) \<and>
   map is_admin (users (snd (register hash0 issue0 ''t3'' shop
          \<lparr>reg_username = ''carol'', reg_password = ''pw3'', admin_key = Some ''aswd''\<rparr>))) =
     [1, 0, 1] \<and>
   fst (register hash0 issue0 ''t3'' shop
          \<lparr>reg_username = ''carol'', reg_password = ''pw3'', admin_key = Some ''ASWD''\<rparr>) =
     Inr (issue0 ''carol'' False) \<and>
   map is_admin (users (snd (register hash0 issue0 ''t3'' shop
          \<lparr>reg_username = ''carol'', reg_password = ''pw3'', admin_key = None\<rparr>))) =
     [1, 0, 0]"
proof -
  have h0: "get_user_by_username init_database
      (reg_username \<lparr>reg_username = ''alice'', reg_password = ''pw1'', admin_key = Some ''nope''\<rparr>)
      = None"
    by (simp add: db_defs)
  have h1: "get_user_by_username shop
      (reg_username \<lparr>reg_username = ''carol'', reg_password = ''pw3'', admin_key = Some ''aswd''\<rparr>)
      = None"
    by (simp add: db_defs)
  note first = register_admin_flag [OF h0, of hash0 issue0 "''t0''"]
  note later = register_admin_flag [OF h1, of hash0 issue0 "''t3''"]
  have evaluated: ?thesis
    by (simp add: db_defs api_defs)
  from first later evaluated show ?thesis
    by blast
qed

text \<open>
  C6. A registration under a username that an account already has is answered with
  400 "Username already exists"; the store is unchanged and no token is returned.
  Usernames are compared as strings.
\<close>

theorem register_duplicate_rejected:
  assumes "get_user_by_username d (reg_username u) = Some row"
  shows "register h c now d u = (Inl (HTTPException 400 ''Username already exists''), d)"
  using assms by (simp add: register_def)

text \<open>
  On the scenario store a second bob is refused, even with the admin key, and a
  registration as \<open>''Bob''\<close> is a different username and goes through.
\<close>

theorem register_duplicate_rejected_witness:
  "get_user_by_username shop ''bob'' =
     Some \<lparr>user_id = 2, username = ''bob'', password_hash = ''#pw2'', is_admin = 0,
           user_created_at = ''t1''\<rparr> \<and>
   register hash0 issue0 ''t3'' shop
     \<lparr>reg_username = ''bob'', reg_password = ''other'', admin_key = Some ''aswd''\<rparr> =
     (Inl (HTTPException 400 ''Username already exists''), shop) \<and>
   fst (register hash0 issue0 ''t3'' shop
     \<lparr>reg_username = ''Bob'', reg_password = ''other'', admin_key = None\<rparr>) =
     Inr (issue0 ''Bob'' False)"
proof -
  have h0: "get_user_by_username shop
      (reg_username \<lparr>reg_username = ''bob'', reg_password = ''other'', admin_key = Some ''aswd''\<rparr>)
      = Some \<lparr>user_id = 2, username = ''bob'', password_hash = ''#pw2'', is_admin = 0,
           user_created_at = ''t1''\<rparr>"
    by (simp add: db_defs)
  have other: "fst (register hash0 issue0 ''t3'' shop
     \<lparr>reg_username = ''Bob'', reg_password = ''other'', admin_key = None\<rparr>) =
     Inr (issue0 ''Bob'' False)"
    by (simp add: db_defs api_defs)
  show ?thesis
    using register_duplicate_rejected [OF h0, of hash0 issue0 "''t3''"] h0 other by simp
qed

section \<open>Access control gate\<close>




section \<open>Token round trip\<close>

text \<open>
  C9. A token issued for a subject and an admin flag at time \<open>t0\<close> verifies, at every time
  strictly before \<open>t0 + window\<close>, to the payload with that subject and flag; at every time
  from \<open>t0 + window\<close> on it verifies to \<open>None\<close>, a value and not an exception, and the
  gate answers 401.
\<close>

theorem verify_issued_token:
  "(now < t0 + window \<longrightarrow>
      verify_token sign secret now (create_access_token sign secret window t0 u a) =
        Some \<lparr>sub = Some u, admin_claim = a, exp_claim = t0 + window\<rparr>) \<and>
   (t0 + window \<le> now \<longrightarrow>
      verify_token sign secret now (create_access_token sign secret window t0 u a) = None \<and>
      get_current_user (verify_token sign secret now) d
          (create_access_token sign secret window t0 u a) =
        Inl (HTTPException 401 ''Invalid or expired token''))"
  by (simp add: verify_token_def create_access_token_def get_current_user_def Let_def)

text \<open>
  The token of alice, issued at 0 for 86400 seconds: valid at 60 and at 86399, invalid
  at 86400.
\<close>

theorem verify_issued_token_witness:
  "verify0 (issue0 ''alice'' True) =
     Some \<lparr>sub = Some ''alice'', admin_claim = True, exp_claim = 86400\<rparr> \<and>
   verify_token Pair ''k'' 86399 (issue0 ''alice'' True) =
     Some \<lparr>sub = Some ''alice'', admin_claim = True, exp_claim = 86400\<rparr> \<and>
   verify_token Pair ''k'' 86400 (issue0 ''alice'' True) = None \<and>
   get_current_user (verify_token Pair ''k'' 86400) shop (issue0 ''alice'' True) =
     Inl (HTTPException 401 ''Invalid or expired token'')"
  using verify_issued_token [of 60 0 86400 Pair "''k''" "''alice''" True shop]
    verify_issued_token [of 86399 0 86400 Pair "''k''" "''alice''" True shop]
    verify_issued_token [of 86400 0 86400 Pair "''k''" "''alice''" True shop]
  by simp


end
